theory Spec2Isabelle
  imports Main
begin

section \<open>GuideManager: import of web guides into the geo-object store\<close>

text \<open>
  A shallow embedding of \<^verbatim>\<open>isomer/guides/guide_manager.py\<close>. The component reads and
  writes three things: the files of its cache directory, the object store (the
  \<^verbatim>\<open>layer\<close> and \<^verbatim>\<open>geoobject\<close> collections) and the log. They form the record
  \<open>world\<close>, which every method takes and returns. What lies outside the module (the
  HTTP client, the process spawner, the JSON parser, the UUID generator) is the record
  \<open>env\<close> of functions. A Python exception is the outcome \<open>Raised\<close>, which carries the
  world as it was at the raise.
\<close>

subsection \<open>Python values and exceptions\<close>

text \<open>
  The value \<^verbatim>\<open>json.loads\<close> returns. The pipeline never computes with a number, so a
  float is kept as its lexeme.
\<close>

datatype json =
    JNull
  | JBool bool
  | JInt int
  | JFloat string
  | JStr string
  | JArr "json list"
  | JObj "(string \<times> json) list"

text \<open>
  The exceptions the module can meet. \<^verbatim>\<open>HTTPError\<close> is a subclass of \<^verbatim>\<open>URLError\<close>;
  every other constructor is outside that class.
\<close>

datatype exn =
    KeyError string
  | TypeError
  | URLError
  | HTTPError
  | UnicodeDecodeError
  | UnicodeEncodeError
  | IncompleteRead
  | OSError
  | FileNotFoundError
  | JSONDecodeError

text \<open>The clause \<^verbatim>\<open>except (request.URLError, request.HTTPError)\<close>.\<close>

fun is_URLError :: "exn \<Rightarrow> bool" where
  "is_URLError URLError = True"
| "is_URLError HTTPError = True"
| "is_URLError _ = False"

text \<open>\<^verbatim>\<open>v[key]\<close> with a string key: a dict looks the key up, any other value has no
  string subscript.\<close>

fun subscript :: "json \<Rightarrow> string \<Rightarrow> exn + json" where
  "subscript (JObj kvs) k =
     (case map_of kvs k of None \<Rightarrow> Inl (KeyError k) | Some v \<Rightarrow> Inr v)"
| "subscript _ k = Inl TypeError"

text \<open>\<^verbatim>\<open>len(v)\<close>.\<close>

fun py_len :: "json \<Rightarrow> exn + nat" where
  "py_len (JArr vs) = Inr (length vs)"
| "py_len (JObj kvs) = Inr (length kvs)"
| "py_len (JStr s) = Inr (length s)"
| "py_len _ = Inl TypeError"

text \<open>\<^verbatim>\<open>for item in v\<close>: a list yields its elements, a dict its keys, a string its
  characters.\<close>

fun py_iter :: "json \<Rightarrow> exn + json list" where
  "py_iter (JArr vs) = Inr vs"
| "py_iter (JObj kvs) = Inr (map (\<lambda>kv. JStr (fst kv)) kvs)"
| "py_iter (JStr s) = Inr (map (\<lambda>c. JStr [c]) s)"
| "py_iter _ = Inl TypeError"

text \<open>\<^verbatim>\<open>os.path.join(a, b)\<close> on POSIX: an absolute second component replaces the
  first.\<close>

definition os_path_join :: "string \<Rightarrow> string \<Rightarrow> string" where
  "os_path_join a b =
     (if b \<noteq> [] \<and> hd b = CHR ''/'' then b
      else if a = [] \<or> last a = CHR ''/'' then a @ b
      else a @ ''/'' @ b)"

subsection \<open>The store\<close>

type_synonym uuid = string

record layer =
  layer_uuid :: uuid
  layer_name :: string
  layer_type :: string

record geoobject =
  geo_uuid :: uuid
  geo_layer :: uuid
  geo_geojson :: json
  geo_type :: string
  geo_name :: string

text \<open>The two collections \<^verbatim>\<open>objectmodels['layer']\<close> and
  \<^verbatim>\<open>objectmodels['geoobject']\<close>, each in insertion order.\<close>

record store =
  layers :: "layer list"
  geoobjects :: "geoobject list"

text \<open>\<^verbatim>\<open>objectmodels['layer'].find_one({'name': guide})\<close>: the first match or
  \<^verbatim>\<open>None\<close>.\<close>

definition find_one_layer :: "string \<Rightarrow> store \<Rightarrow> layer option" where
  "find_one_layer name s = find (\<lambda>l. layer_name l = name) (layers s)"

text \<open>\<^verbatim>\<open>layer.delete()\<close> removes that one record.\<close>

definition delete_layer :: "layer \<Rightarrow> store \<Rightarrow> store" where
  "delete_layer l s = s\<lparr>layers := remove1 l (layers s)\<rparr>"

text \<open>\<^verbatim>\<open>layer.save()\<close> of a record built in this call: an insertion.\<close>

definition save_layer :: "layer \<Rightarrow> store \<Rightarrow> store" where
  "save_layer l s = s\<lparr>layers := layers s @ [l]\<rparr>"

text \<open>\<^verbatim>\<open>objectmodels['geoobject'].find({'layer': layer_uuid})\<close>.\<close>

definition find_geoobjects :: "uuid \<Rightarrow> store \<Rightarrow> geoobject list" where
  "find_geoobjects u s = filter (\<lambda>g. geo_layer g = u) (geoobjects s)"

text \<open>\<^verbatim>\<open>item.delete()\<close>.\<close>

definition delete_geoobject :: "geoobject \<Rightarrow> store \<Rightarrow> store" where
  "delete_geoobject g s = s\<lparr>geoobjects := remove1 g (geoobjects s)\<rparr>"

text \<open>\<^verbatim>\<open>objectmodels['geoobject'].bulk_create(locations)\<close>.\<close>

definition bulk_create :: "geoobject list \<Rightarrow> store \<Rightarrow> store" where
  "bulk_create gs s = s\<lparr>geoobjects := geoobjects s @ gs\<rparr>"

subsection \<open>The world and its environment\<close>

datatype lvl = verbose | debug | warn | error

record world =
  files :: "string \<rightharpoonup> string"
  db :: store
  uuid_calls :: nat
  logged :: "(lvl \<times> string) list"

text \<open>What a spawned process did: \<^verbatim>\<open>Popen\<close> raised, or the process ran, left the
  files as given and exited with a status that \<^verbatim>\<open>process.wait()\<close> returns.\<close>

datatype proc_result =
    SpawnRaised exn
  | Exited int "string \<rightharpoonup> string"

text \<open>
  The collaborators of the module:
  \<^item> \<open>urlopen_read_decode url\<close> is \<^verbatim>\<open>request.urlopen(url).read().decode('utf-8')\<close>;
  \<^item> \<open>open_write path data fs\<close> is \<^verbatim>\<open>with open(path, 'w') as f: f.write(data)\<close>: the
    files afterwards and the exception, if one was raised;
  \<^item> \<open>popen command cwd fs\<close> is \<^verbatim>\<open>Popen(command, cwd=cwd)\<close> followed by
    \<^verbatim>\<open>process.wait()\<close>;
  \<^item> \<open>json_loads\<close> is \<^verbatim>\<open>json.loads\<close>, \<open>None\<close> when it raises;
  \<^item> \<open>py_str\<close> is what \<^verbatim>\<open>%s\<close> makes of a value;
  \<^item> \<open>uuid_source n\<close> is what the \<open>n\<close>-th call of \<^verbatim>\<open>std_uuid()\<close> returns.
\<close>

record env =
  urlopen_read_decode :: "string \<Rightarrow> exn + string"
  open_write :: "string \<Rightarrow> string \<Rightarrow> (string \<rightharpoonup> string) \<Rightarrow> (string \<rightharpoonup> string) \<times> exn option"
  popen :: "string list \<Rightarrow> string \<Rightarrow> (string \<rightharpoonup> string) \<Rightarrow> proc_result"
  json_loads :: "string \<Rightarrow> json option"
  py_str :: "json \<Rightarrow> string"
  uuid_source :: "nat \<Rightarrow> uuid"

datatype outcome =
    Returned world
  | Raised exn world

text \<open>\<^verbatim>\<open>self.log(message, ..., lvl=l)\<close>: the level and the leading message.\<close>

definition log :: "lvl \<Rightarrow> string \<Rightarrow> world \<Rightarrow> world" where
  "log l msg w = w\<lparr>logged := logged w @ [(l, msg)]\<rparr>"

text \<open>\<^verbatim>\<open>std_uuid()\<close>.\<close>

definition std_uuid :: "env \<Rightarrow> world \<Rightarrow> uuid \<times> world" where
  "std_uuid e w = (uuid_source e (uuid_calls w), w\<lparr>uuid_calls := Suc (uuid_calls w)\<rparr>)"

subsection \<open>The component\<close>

text \<open>The attributes \<^verbatim>\<open>__init__\<close> sets on \<^verbatim>\<open>self\<close>.\<close>

record guide_manager =
  translate_binary :: string
  cache_path :: string
  guides :: "(string \<times> string) list"

text \<open>\<^verbatim>\<open>__init__\<close>, with the \<^verbatim>\<open>instance\<close> name of \<^verbatim>\<open>isomer.database\<close>.\<close>

definition init :: "string \<Rightarrow> guide_manager" where
  "init instance =
     \<lparr>translate_binary = ''/usr/bin/ogr2ogr'',
      cache_path = os_path_join ''/var/cache/hfos'' instance,
      guides = [(''skipperguide_german'',
                 ''http://www.skipperguide.de/extension/GoogleEarthExport.php'')]\<rparr>"

text \<open>
  The methods whose Python names start with an underscore are written with the
  prefix \<open>priv\<close>, since an Isabelle name cannot start with one.

  \<^verbatim>\<open>_runcommand\<close>: a raise of \<^verbatim>\<open>Popen\<close> or \<^verbatim>\<open>wait\<close> is logged and gives \<^verbatim>\<open>False\<close>;
  the exit status is not looked at.
\<close>

definition priv_runcommand ::
  "guide_manager \<Rightarrow> env \<Rightarrow> string list \<Rightarrow> world \<Rightarrow> bool \<times> world" where
  "priv_runcommand self e command w =
     (let w1 = log debug ''Executing command: '' w in
      case popen e command (cache_path self) (files w1) of
        SpawnRaised x \<Rightarrow> (False, log error ''Problem during gdal execution: '' w1)
      | Exited status fs \<Rightarrow> (True, w1\<lparr>files := fs\<rparr>))"

text \<open>\<^verbatim>\<open>_translate\<close>.\<close>

definition priv_translate ::
  "guide_manager \<Rightarrow> env \<Rightarrow> string \<Rightarrow> string \<Rightarrow> world \<Rightarrow> world" where
  "priv_translate self e input_filename output_filename w =
     (let command = [translate_binary self, ''-f'', ''GeoJSON'',
                     output_filename, input_filename];
          (result, w1) = priv_runcommand self e command w
      in log debug ''Result (Translate): '' w1)"

text \<open>The expression \<^verbatim>\<open>item['properties']['Name']\<close> of line 193.\<close>

definition feature_name :: "json \<Rightarrow> exn + json" where
  "feature_name item =
     (case subscript item ''properties'' of
        Inl x \<Rightarrow> Inl x
      | Inr props \<Rightarrow> subscript props ''Name'')"

text \<open>
  The loop of \<^verbatim>\<open>_update_guide\<close> that builds the records (lines 186 to 195). The dict
  display evaluates \<^verbatim>\<open>std_uuid()\<close> before \<^verbatim>\<open>item['properties']['Name']\<close>, so a
  raise of the latter comes after the call of the former.
\<close>

fun build_locations ::
  "env \<Rightarrow> uuid \<Rightarrow> json list \<Rightarrow> geoobject list \<Rightarrow> world \<Rightarrow> (exn \<times> world) + (geoobject list \<times> world)" where
  "build_locations e lu [] locations w = Inr (locations, w)"
| "build_locations e lu (item # items) locations w =
     (let w1 = log verbose ''Adding new guide location:'' w;
          (u, w2) = std_uuid e w1
      in case feature_name item of
           Inl x \<Rightarrow> Inl (x, w2)
         | Inr n \<Rightarrow>
             build_locations e lu items
               (locations @
                  [\<lparr>geo_uuid = u, geo_layer = lu, geo_geojson = item,
                    geo_type = ''Skipperguide'',
                    geo_name = ''Guide for '' @ py_str e n\<rparr>])
               w2)"

text \<open>The loop that deletes the found records one by one (lines 180 to 182).\<close>

fun delete_items :: "geoobject list \<Rightarrow> world \<Rightarrow> world" where
  "delete_items [] w = w"
| "delete_items (item # items) w =
     delete_items items
       ((log debug ''Deleting old guide location'' w)
          \<lparr>db := delete_geoobject item (db (log debug ''Deleting old guide location'' w))\<rparr>)"

text \<open>
  Lines 162 to 182 of \<^verbatim>\<open>_update_guide\<close>: the layer of the guide is looked up; with
  \<^verbatim>\<open>clear\<close> a layer that was found is deleted and forgotten; a layer that is missing
  (or forgotten) is made with the identifier of a new \<^verbatim>\<open>std_uuid()\<close>; with \<^verbatim>\<open>clear\<close>
  the records that refer to \<^verbatim>\<open>layer_uuid\<close>, as it is by then, are deleted.
\<close>

definition resolve_layer :: "env \<Rightarrow> string \<Rightarrow> bool \<Rightarrow> world \<Rightarrow> uuid \<times> world" where
  "resolve_layer e guide clear w =
     (let found = find_one_layer guide (db w);
          (layer, w1) =
             (case found of
                Some l \<Rightarrow> if clear then (None, w\<lparr>db := delete_layer l (db w)\<rparr>) else (Some l, w)
              | None \<Rightarrow> (None, w));
          (lu, w2) =
             (case layer of
                None \<Rightarrow>
                  (let (u, wa) = std_uuid e w1
                   in (u, wa\<lparr>db := save_layer
                                \<lparr>layer_uuid = u, layer_name = guide, layer_type = ''geoobjects''\<rparr>
                                (db wa)\<rparr>))
              | Some l \<Rightarrow> (layer_uuid l, w1))
      in (lu, if clear then delete_items (find_geoobjects lu (db w2)) w2 else w2))"

text \<open>Lines 162 to 198: the layer is resolved, the records are built and then
  inserted in one call.\<close>

definition replace_layer ::
  "env \<Rightarrow> string \<Rightarrow> bool \<Rightarrow> json list \<Rightarrow> world \<Rightarrow> outcome" where
  "replace_layer e guide clear items w =
     (let (lu, w3) = resolve_layer e guide clear w
      in case build_locations e lu items [] w3 of
           Inl (x, w4) \<Rightarrow> Raised x w4
         | Inr (locations, w4) \<Rightarrow>
             (let w5 = log debug ''Bulk inserting guide locations'' w4
              in Returned (w5\<lparr>db := bulk_create locations (db w5)\<rparr>)))"

text \<open>Lines 155 to 160, then the replacement: the cache file is read and parsed, and
  an empty feature collection ends the call.\<close>

definition load_and_replace ::
  "env \<Rightarrow> string \<Rightarrow> string \<Rightarrow> bool \<Rightarrow> world \<Rightarrow> outcome" where
  "load_and_replace e guide geojson_filename clear w =
     (case files w geojson_filename of
        None \<Rightarrow> Raised FileNotFoundError w
      | Some text \<Rightarrow>
          (case json_loads e text of
             None \<Rightarrow> Raised JSONDecodeError w
           | Some json_data \<Rightarrow>
               (case subscript json_data ''features'' of
                  Inl x \<Rightarrow> Raised x w
                | Inr features \<Rightarrow>
                    (case py_len features of
                       Inl x \<Rightarrow> Raised x w
                     | Inr n \<Rightarrow>
                         if n = 0 then Returned (log warn ''No features found!'' w)
                         else (case py_iter features of
                                 Inl x \<Rightarrow> Raised x w
                               | Inr items \<Rightarrow> replace_layer e guide clear items w)))))"

text \<open>The two cache files of a guide (lines 139 and 140).\<close>

definition kml_filename :: "guide_manager \<Rightarrow> string \<Rightarrow> string" where
  "kml_filename self guide = os_path_join (cache_path self) (guide @ ''.kml'')"

definition geojson_filename :: "guide_manager \<Rightarrow> string \<Rightarrow> string" where
  "geojson_filename self guide = os_path_join (cache_path self) (guide @ ''.geojson'')"

text \<open>Where the first block of \<^verbatim>\<open>_update_guide\<close> leaves the call: it goes on to
  read the cache file, or it has ended.\<close>

datatype step =
    Continue world
  | Finished outcome

text \<open>
  Lines 142 to 153: when the GeoJSON file is missing or \<^verbatim>\<open>update\<close> is set, the guide
  is downloaded, written to the KML file and translated. \<^verbatim>\<open>self.guides[guide]\<close> is
  evaluated inside the \<^verbatim>\<open>try\<close>, whose handler takes \<^verbatim>\<open>URLError\<close> only.
\<close>

definition fetch_step ::
  "guide_manager \<Rightarrow> env \<Rightarrow> string \<Rightarrow> bool \<Rightarrow> world \<Rightarrow> step" where
  "fetch_step self e guide update w =
     (if files w (geojson_filename self guide) = None \<or> update then
        (case map_of (guides self) guide of
           None \<Rightarrow> Finished (Raised (KeyError guide) w)
         | Some url \<Rightarrow>
             (case urlopen_read_decode e url of
                Inl x \<Rightarrow>
                  if is_URLError x
                  then Finished (Returned (log warn ''Could not get web guide data:'' w))
                  else Finished (Raised x w)
              | Inr data \<Rightarrow>
                  (case open_write e (kml_filename self guide) data (files w) of
                     (fs, Some x) \<Rightarrow> Finished (Raised x (w\<lparr>files := fs\<rparr>))
                   | (fs, None) \<Rightarrow>
                       Continue
                         (priv_translate self e (kml_filename self guide)
                            (geojson_filename self guide) (w\<lparr>files := fs\<rparr>)))))
      else Continue w)"

text \<open>\<^verbatim>\<open>_update_guide(guide, update=False, clear=True)\<close>.\<close>

definition priv_update_guide ::
  "guide_manager \<Rightarrow> env \<Rightarrow> string \<Rightarrow> bool \<Rightarrow> bool \<Rightarrow> world \<Rightarrow> outcome" where
  "priv_update_guide self e guide update clear w =
     (case fetch_step self e guide update w of
        Finished out \<Rightarrow> out
      | Continue w1 \<Rightarrow> load_and_replace e guide (geojson_filename self guide) clear w1)"

text \<open>\<^verbatim>\<open>_update_guides\<close>: the loop over the keys of \<^verbatim>\<open>self.guides\<close>, in the order of
  the dict, each with the default arguments. A raise ends the loop.\<close>

fun update_guides_loop :: "guide_manager \<Rightarrow> env \<Rightarrow> string list \<Rightarrow> world \<Rightarrow> outcome" where
  "update_guides_loop self e [] w = Returned w"
| "update_guides_loop self e (guide # rest) w =
     (case priv_update_guide self e guide False True w of
        Raised x w1 \<Rightarrow> Raised x w1
      | Returned w1 \<Rightarrow> update_guides_loop self e rest w1)"

definition priv_update_guides :: "guide_manager \<Rightarrow> env \<Rightarrow> world \<Rightarrow> outcome" where
  "priv_update_guides self e w = update_guides_loop self e (map fst (guides self)) w"

text \<open>The two event handlers; \<^verbatim>\<open>event.data\<close> is the name of the guide.\<close>

definition update_guide :: "guide_manager \<Rightarrow> env \<Rightarrow> string \<Rightarrow> world \<Rightarrow> outcome" where
  "update_guide self e event_data w = priv_update_guide self e event_data False True w"

definition update_all :: "guide_manager \<Rightarrow> env \<Rightarrow> world \<Rightarrow> outcome" where
  "update_all self e w = priv_update_guides self e w"

subsection \<open>Properties to be checked\<close>

text \<open>The world an outcome leaves, returned or raised.\<close>

fun final_world :: "outcome \<Rightarrow> world" where
  "final_world (Returned w) = w"
| "final_world (Raised x w) = w"

fun has_raised :: "outcome \<Rightarrow> bool" where
  "has_raised (Returned w) = False"
| "has_raised (Raised x w) = True"




text \<open>The layers of a name.\<close>

definition layers_named :: "string \<Rightarrow> store \<Rightarrow> layer list" where
  "layers_named name s = filter (\<lambda>l. layer_name l = name) (layers s)"

text \<open>The number of features of the collection in a cache file, when the file is
  there, parses and has a \<^verbatim>\<open>features\<close> member with a length.\<close>

definition feature_count :: "env \<Rightarrow> string \<Rightarrow> world \<Rightarrow> nat option" where
  "feature_count e path w =
     (case files w path of
        None \<Rightarrow> None
      | Some text \<Rightarrow>
          (case json_loads e text of
             None \<Rightarrow> None
           | Some json_data \<Rightarrow>
               (case subscript json_data ''features'' of
                  Inl x \<Rightarrow> None
                | Inr features \<Rightarrow>
                    (case py_len features of Inl x \<Rightarrow> None | Inr n \<Rightarrow> Some n))))"

text \<open>The store holds exactly one layer of the name, and the number of records that
  refer to its identifier is the given count.\<close>

definition one_layer_with :: "string \<Rightarrow> nat option \<Rightarrow> store \<Rightarrow> bool" where
  "one_layer_with name count s =
     (case layers_named name s of
        [l] \<Rightarrow> Some (length (find_geoobjects (layer_uuid l) s)) = count
      | _ \<Rightarrow> False)"

text \<open>What a call of \<^verbatim>\<open>_update_guide\<close> is to leave: the store as it was, or one
  layer of the name with as many records as the cache file has features.\<close>

definition replaced_or_unchanged :: "env \<Rightarrow> string \<Rightarrow> string \<Rightarrow> world \<Rightarrow> world \<Rightarrow> bool" where
  "replaced_or_unchanged e guide path w w' =
     (db w' = db w \<or> one_layer_with guide (feature_count e path w') (db w'))"

subsection \<open>A test bed\<close>

text \<open>
  A small environment to run the methods in. Two URLs answer, every other request
  raises \<^verbatim>\<open>URLError\<close>; files are written as asked; the translator, when it is the binary
  of the component, copies its input to its output; five file texts parse.
\<close>

definition named_feature :: "string \<Rightarrow> json" where
  "named_feature n =
     JObj [(''type'', JStr ''Feature''), (''properties'', JObj [(''Name'', JStr n)])]"

definition nameless_feature :: json where
  "nameless_feature =
     JObj [(''type'', JStr ''Feature''), (''properties'', JObj [(''Note'', JStr ''x'')])]"

text \<open>A feature whose \<^verbatim>\<open>properties\<close> member is \<^verbatim>\<open>null\<close>, as GeoJSON allows.\<close>

definition null_feature :: json where
  "null_feature = JObj [(''type'', JStr ''Feature''), (''properties'', JNull)]"

definition collection :: "json list \<Rightarrow> json" where
  "collection fs = JObj [(''type'', JStr ''FeatureCollection''), (''features'', JArr fs)]"

definition test_loads :: "string \<Rightarrow> json option" where
  "test_loads text =
     (if text = ''three'' then
        Some (collection [named_feature ''Kiel'', named_feature ''Laboe'', named_feature ''Strande''])
      else if text = ''one'' then Some (collection [named_feature ''Kiel''])
      else if text = ''nameless'' then Some (collection [nameless_feature])
      else if text = ''null'' then Some (collection [null_feature, nameless_feature])
      else if text = ''empty'' then Some (collection [])
      else None)"

definition test_popen :: "string list \<Rightarrow> string \<Rightarrow> (string \<rightharpoonup> string) \<Rightarrow> proc_result" where
  "test_popen command cwd fs =
     (case command of
        [binary, f, format, output, input] \<Rightarrow>
          if binary = ''/usr/bin/ogr2ogr''
          then Exited 0 (fs(output := fs input))
          else SpawnRaised FileNotFoundError
      | _ \<Rightarrow> SpawnRaised FileNotFoundError)"

definition test_str :: "json \<Rightarrow> string" where
  "test_str v = (case v of JStr s \<Rightarrow> s | _ \<Rightarrow> ''?'')"

definition test_env :: env where
  "test_env =
     \<lparr>urlopen_read_decode =
        (\<lambda>url. if url = ''http://example/g1.kml'' then Inr ''three''
               else if url = ''http://example/g2.kml'' then Inr ''one''
               else Inl URLError),
      open_write = (\<lambda>path data fs. (fs(path \<mapsto> data), None)),
      popen = test_popen,
      json_loads = test_loads,
      py_str = test_str,
      uuid_source = (\<lambda>n. replicate (Suc n) CHR ''u'')\<rparr>"

definition test_manager :: guide_manager where
  "test_manager =
     \<lparr>translate_binary = ''/usr/bin/ogr2ogr'',
      cache_path = ''/c'',
      guides = [(''g1'', ''http://example/g1.kml''), (''g2'', ''http://example/g2.kml'')]\<rparr>"

definition empty_store :: store where
  "empty_store = \<lparr>layers = [], geoobjects = []\<rparr>"

text \<open>A world with the given files and store, no call of \<^verbatim>\<open>std_uuid\<close> made and
  nothing logged.\<close>

definition test_world :: "(string \<times> string) list \<Rightarrow> store \<Rightarrow> world" where
  "test_world fs s = \<lparr>files = map_of fs, db = s, uuid_calls = 0, logged = []\<rparr>"

text \<open>A store from an earlier import of \<^verbatim>\<open>g1\<close>: its layer and one record of it.\<close>

definition old_layer :: layer where
  "old_layer = \<lparr>layer_uuid = ''old'', layer_name = ''g1'', layer_type = ''geoobjects''\<rparr>"

definition old_location :: geoobject where
  "old_location =
     \<lparr>geo_uuid = ''o1'', geo_layer = ''old'', geo_geojson = named_feature ''Schilksee'',
      geo_type = ''Skipperguide'', geo_name = ''Guide for Schilksee''\<rparr>"

definition old_store :: store where
  "old_store = \<lparr>layers = [old_layer], geoobjects = [old_location]\<rparr>"

text \<open>The environment with a translator that runs, writes nothing and exits with
  status 1.\<close>

definition failing_tool_env :: env where
  "failing_tool_env = test_env\<lparr>popen := (\<lambda>command cwd fs. Exited 1 fs)\<rparr>"

text \<open>A component whose translator binary is not installed, and one whose only guide
  is at a URL that does not answer.\<close>

definition broken_manager :: guide_manager where
  "broken_manager = test_manager\<lparr>translate_binary := ''/usr/bin/missing''\<rparr>"

definition offline_manager :: guide_manager where
  "offline_manager = test_manager\<lparr>guides := [(''g3'', ''http://example/down.kml'')]\<rparr>"

text \<open>The environments in which the body of \<^verbatim>\<open>g1\<close> is not UTF-8, in which the
  connection breaks while the body is read, and in which the cache directory cannot be
  written.\<close>

definition undecodable_env :: env where
  "undecodable_env = test_env\<lparr>urlopen_read_decode := (\<lambda>url. Inl UnicodeDecodeError)\<rparr>"

definition truncated_env :: env where
  "truncated_env = test_env\<lparr>urlopen_read_decode := (\<lambda>url. Inl IncompleteRead)\<rparr>"

definition readonly_env :: env where
  "readonly_env = test_env\<lparr>open_write := (\<lambda>path data fs. (fs, Some OSError))\<rparr>"

subsection \<open>The store operations and the two loops\<close>

lemma fold_remove1_Cons_other:
  "\<forall>z\<in>set zs. z \<noteq> x \<Longrightarrow> fold remove1 zs (x # ys) = x # fold remove1 zs ys"
  by (induction zs arbitrary: ys) auto

lemma fold_remove1_filter:
  "fold remove1 (filter P xs) xs = filter (\<lambda>x. \<not> P x) xs"
proof (induction xs)
  case Nil
  then show ?case by simp
next
  case (Cons x xs)
  show ?case
  proof (cases "P x")
    case True
    with Cons show ?thesis by simp
  next
    case False
    then have "\<forall>z\<in>set (filter P xs). z \<noteq> x" by auto
    then have "fold remove1 (filter P xs) (x # xs) = x # fold remove1 (filter P xs) xs"
      by (rule fold_remove1_Cons_other)
    with False Cons show ?thesis by simp
  qed
qed

lemma delete_items_db:
  "db (delete_items items w) = (db w)\<lparr>geoobjects := fold remove1 items (geoobjects (db w))\<rparr>"
  by (induction items arbitrary: w) (simp_all add: log_def delete_geoobject_def)

lemma delete_items_files: "files (delete_items items w) = files w"
  by (induction items arbitrary: w) (simp_all add: log_def)

lemma delete_items_uuid_calls: "uuid_calls (delete_items items w) = uuid_calls w"
  by (induction items arbitrary: w) (simp_all add: log_def)

lemma delete_items_logged:
  "logged (delete_items items w) =
     logged w @ replicate (length items) (debug, ''Deleting old guide location'')"
  by (induction items arbitrary: w) (simp_all add: log_def replicate_app_Cons_same)

lemma delete_found_geoobjects:
  "geoobjects (db (delete_items (find_geoobjects u (db w)) w)) =
     filter (\<lambda>g. geo_layer g \<noteq> u) (geoobjects (db w))"
  by (simp add: delete_items_db find_geoobjects_def fold_remove1_filter)

lemma delete_found_layers:
  "layers (db (delete_items items w)) = layers (db w)"
  by (simp add: delete_items_db)

lemma build_locations_Inr:
  "build_locations e lu items acc w = Inr (locs, w') \<Longrightarrow>
     db w' = db w \<and> files w' = files w \<and>
     (\<exists>new. locs = acc @ new \<and> length new = length items \<and> (\<forall>g\<in>set new. geo_layer g = lu))"
proof (induction items arbitrary: acc w)
  case Nil
  then show ?case by simp
next
  case (Cons item items)
  from Cons.prems obtain n where
    rec: "build_locations e lu items
            (acc @ [\<lparr>geo_uuid = uuid_source e (uuid_calls w), geo_layer = lu, geo_geojson = item,
                     geo_type = ''Skipperguide'', geo_name = ''Guide for '' @ py_str e n\<rparr>])
            ((log verbose ''Adding new guide location:'' w)\<lparr>uuid_calls := Suc (uuid_calls w)\<rparr>)
          = Inr (locs, w')"
    by (auto simp: Let_def std_uuid_def log_def split: sum.splits)
  from Cons.IH [OF rec] show ?case
    by (auto simp: log_def)
qed


lemma find_None_filter: "find P xs = None \<Longrightarrow> filter P xs = []"
  by (induction xs) (auto split: if_splits)

lemma find_Some_remove1_filter:
  "find P xs = Some l \<Longrightarrow> length (filter P xs) \<le> 1 \<Longrightarrow> filter P (remove1 l xs) = []"
proof (induction xs)
  case Nil
  then show ?case by simp
next
  case (Cons x xs)
  show ?case
  proof (cases "P x")
    case True
    with Cons.prems show ?thesis by simp
  next
    case False
    with Cons.prems have f: "find P xs = Some l" and len: "length (filter P xs) \<le> 1"
      by simp_all
    from f have "P l" by (induction xs) (auto split: if_splits)
    with False have "x \<noteq> l" by auto
    with False Cons.IH [OF f len] show ?thesis by simp
  qed
qed

lemma resolve_layer_clear:
  assumes "resolve_layer e guide True w = (lu, w3)"
  shows "lu = uuid_source e (uuid_calls w)"
    and "layers (db w3) =
       (case find_one_layer guide (db w) of
          None \<Rightarrow> layers (db w)
        | Some l \<Rightarrow> remove1 l (layers (db w)))
       @ [\<lparr>layer_uuid = lu, layer_name = guide, layer_type = ''geoobjects''\<rparr>]"
    and "geoobjects (db w3) = filter (\<lambda>g. geo_layer g \<noteq> lu) (geoobjects (db w))"
    and "files w3 = files w"
proof -
  define w1 where "w1 = (case find_one_layer guide (db w) of
      None \<Rightarrow> w | Some l \<Rightarrow> w\<lparr>db := delete_layer l (db w)\<rparr>)"
  define u where "u = uuid_source e (uuid_calls w)"
  define w2 where "w2 = w1\<lparr>uuid_calls := Suc (uuid_calls w1),
      db := save_layer \<lparr>layer_uuid = u, layer_name = guide, layer_type = ''geoobjects''\<rparr> (db w1)\<rparr>"
  have calls: "uuid_calls w1 = uuid_calls w"
    by (simp add: w1_def split: option.splits)
  have "resolve_layer e guide True w = (u, delete_items (find_geoobjects u (db w2)) w2)"
    by (simp add: resolve_layer_def Let_def std_uuid_def w2_def w1_def u_def calls
        split: option.splits)
  with assms have lu: "lu = u" and w3: "w3 = delete_items (find_geoobjects u (db w2)) w2"
    by auto
  have g2: "geoobjects (db w2) = geoobjects (db w)"
    by (simp add: w2_def w1_def save_layer_def delete_layer_def split: option.splits)
  show "lu = uuid_source e (uuid_calls w)"
    by (simp add: lu u_def)
  show "layers (db w3) =
       (case find_one_layer guide (db w) of
          None \<Rightarrow> layers (db w)
        | Some l \<Rightarrow> remove1 l (layers (db w)))
       @ [\<lparr>layer_uuid = lu, layer_name = guide, layer_type = ''geoobjects''\<rparr>]"
    by (simp add: w3 lu delete_found_layers w2_def w1_def save_layer_def delete_layer_def
        split: option.splits)
  show "geoobjects (db w3) = filter (\<lambda>g. geo_layer g \<noteq> lu) (geoobjects (db w))"
    by (simp add: w3 lu delete_found_geoobjects g2)
  show "files w3 = files w"
    by (simp add: w3 delete_items_files w2_def w1_def split: option.splits)
qed

lemma resolve_layer_keep:
  assumes "resolve_layer e guide False w = (lu, w3)"
  shows "geoobjects (db w3) = geoobjects (db w)" and "files w3 = files w"
  using assms
  by (auto simp: resolve_layer_def Let_def std_uuid_def save_layer_def
      split: option.splits)


lemma resolve_layer_files:
  assumes "resolve_layer e guide clear w = (lu, w3)"
  shows "files w3 = files w"
proof (cases clear)
  case True
  with assms have "resolve_layer e guide True w = (lu, w3)" by simp
  then show ?thesis by (rule resolve_layer_clear(4))
next
  case False
  with assms have "resolve_layer e guide False w = (lu, w3)" by simp
  then show ?thesis by (rule resolve_layer_keep(2))
qed

lemma replace_layer_clear_Returned:
  assumes "replace_layer e guide True items w = Returned w'"
  shows "\<exists>locs. 
     layers (db w') =
       (case find_one_layer guide (db w) of
          None \<Rightarrow> layers (db w)
        | Some l \<Rightarrow> remove1 l (layers (db w)))
       @ [\<lparr>layer_uuid = uuid_source e (uuid_calls w), layer_name = guide,
            layer_type = ''geoobjects''\<rparr>]
     \<and> geoobjects (db w') =
         filter (\<lambda>g. geo_layer g \<noteq> uuid_source e (uuid_calls w)) (geoobjects (db w)) @ locs
     \<and> length locs = length items
     \<and> (\<forall>g\<in>set locs. geo_layer g = uuid_source e (uuid_calls w))
     \<and> files w' = files w"
proof -
  obtain lu w3 where rl: "resolve_layer e guide True w = (lu, w3)"
    by (cases "resolve_layer e guide True w")
  note facts = resolve_layer_clear [OF rl]
  from assms rl obtain locs w4 where
    bl: "build_locations e lu items [] w3 = Inr (locs, w4)" and
    w': "w' = (log debug ''Bulk inserting guide locations'' w4)
             \<lparr>db := bulk_create locs (db (log debug ''Bulk inserting guide locations'' w4))\<rparr>"
    by (auto simp: replace_layer_def Let_def split: sum.splits prod.splits)
  from build_locations_Inr [OF bl] have
    db4: "db w4 = db w3" and f4: "files w4 = files w3" and
    len: "length locs = length items" and lay: "\<forall>g\<in>set locs. geo_layer g = lu"
    by auto
  have "layers (db w') = layers (db w3)"
    by (simp add: w' log_def bulk_create_def db4)
  moreover have "geoobjects (db w') = geoobjects (db w3) @ locs"
    by (simp add: w' log_def bulk_create_def db4)
  moreover have "files w' = files w3"
    by (simp add: w' log_def f4)
  ultimately show ?thesis
    using len lay facts by auto
qed


lemma replace_layer_files:
  assumes "replace_layer e guide clear items w = Returned w'"
  shows "files w' = files w"
proof -
  obtain lu w3 where rl: "resolve_layer e guide clear w = (lu, w3)"
    by (cases "resolve_layer e guide clear w")
  from assms rl obtain locs w4 where
    bl: "build_locations e lu items [] w3 = Inr (locs, w4)" and
    w': "w' = (log debug ''Bulk inserting guide locations'' w4)
             \<lparr>db := bulk_create locs (db (log debug ''Bulk inserting guide locations'' w4))\<rparr>"
    by (auto simp: replace_layer_def Let_def split: sum.splits prod.splits)
  from build_locations_Inr [OF bl] have "files w4 = files w3" by simp
  with resolve_layer_files [OF rl] show ?thesis by (simp add: w' log_def)
qed



subsection \<open>The steps of \<^verbatim>\<open>_update_guide\<close>\<close>

text \<open>The definitions to unfold when a method is run in the test bed.\<close>

lemmas test_defs = test_world_def test_manager_def test_env_def test_popen_def test_loads_def test_str_def
  old_layer_def old_location_def old_store_def failing_tool_env_def broken_manager_def
  offline_manager_def undecodable_env_def truncated_env_def readonly_env_def null_feature_def
  empty_store_def collection_def named_feature_def nameless_feature_def
lemmas run_defs = priv_update_guide_def fetch_step_def load_and_replace_def replace_layer_def
  resolve_layer_def feature_name_def
  priv_translate_def priv_runcommand_def kml_filename_def geojson_filename_def os_path_join_def
  log_def std_uuid_def find_one_layer_def delete_layer_def save_layer_def find_geoobjects_def
  delete_geoobject_def bulk_create_def

lemma fetch_step_Continue_db:
  "fetch_step self e guide update w = Continue w1 \<Longrightarrow> db w1 = db w"
  by (auto simp: fetch_step_def priv_translate_def priv_runcommand_def log_def Let_def
      split: if_splits option.splits sum.splits prod.splits proc_result.splits)

lemma fetch_step_Returned_db:
  "fetch_step self e guide update w = Finished (Returned w1) \<Longrightarrow> db w1 = db w"
  by (auto simp: fetch_step_def log_def
      split: if_splits option.splits sum.splits prod.splits)

lemma py_iter_length:
  "py_len v = Inr n \<Longrightarrow> py_iter v = Inr items \<Longrightarrow> length items = n"
  by (cases v) auto


lemma load_and_replace_Returned:
  assumes "load_and_replace e guide path True w = Returned w'"
  shows "db w' = db w \<or>
         (\<exists>n items. feature_count e path w = Some n \<and> length items = n \<and>
             replace_layer e guide True items w = Returned w')"
  using assms
  by (auto simp: load_and_replace_def feature_count_def log_def py_iter_length
      split: option.splits sum.splits if_splits)

lemma replace_layer_one_layer:
  assumes r: "replace_layer e guide True items w = Returned w'"
      and one: "length (layers_named guide (db w)) \<le> 1"
  shows "one_layer_with guide (Some (length items)) (db w') \<and> files w' = files w"
proof -
  define u where "u = uuid_source e (uuid_calls w)"
  define new where "new = \<lparr>layer_uuid = u, layer_name = guide, layer_type = ''geoobjects''\<rparr>"
  from replace_layer_clear_Returned [OF r] obtain locs where
    lay: "layers (db w') =
       (case find_one_layer guide (db w) of
          None \<Rightarrow> layers (db w)
        | Some l \<Rightarrow> remove1 l (layers (db w))) @ [new]" and
    geo: "geoobjects (db w') = filter (\<lambda>g. geo_layer g \<noteq> u) (geoobjects (db w)) @ locs" and
    len: "length locs = length items" and
    ref: "\<forall>g\<in>set locs. geo_layer g = u" and
    fil: "files w' = files w"
    unfolding u_def new_def by blast
  have old: "filter (\<lambda>l. layer_name l = guide)
       (case find_one_layer guide (db w) of
          None \<Rightarrow> layers (db w)
        | Some l \<Rightarrow> remove1 l (layers (db w))) = []"
  proof (cases "find_one_layer guide (db w)")
    case None
    then show ?thesis by (simp add: find_one_layer_def find_None_filter)
  next
    case (Some l)
    with one show ?thesis
      by (simp add: find_one_layer_def layers_named_def find_Some_remove1_filter)
  qed
  have named: "layers_named guide (db w') = [new]"
    by (simp add: layers_named_def lay old) (simp add: new_def)
  from ref have "filter (\<lambda>g. geo_layer g = u) locs = locs"
    by (simp add: filter_id_conv)
  then have "find_geoobjects u (db w') = locs"
    by (simp add: find_geoobjects_def geo)
  with named len fil show ?thesis
    by (simp add: one_layer_with_def new_def)
qed

lemma load_and_replace_files:
  "load_and_replace e guide path clear w = Returned w' \<Longrightarrow> files w' = files w"
  by (auto simp: load_and_replace_def log_def split: option.splits sum.splits if_splits
      dest: replace_layer_files)

lemma feature_count_files:
  "files w' = files w \<Longrightarrow> feature_count e path w' = feature_count e path w"
  by (simp add: feature_count_def)

lemma update_guides_loop_append:
  "update_guides_loop self e (xs @ ys) w =
     (case update_guides_loop self e xs w of
        Raised x w1 \<Rightarrow> Raised x w1
      | Returned w1 \<Rightarrow> update_guides_loop self e ys w1)"
  by (induction xs arbitrary: w) (simp_all split: outcome.splits)

subsection \<open>C1: the records of the previous layer\<close>

text \<open>
  C1 says that after a call \<^verbatim>\<open>_update_guide(name, clear=True)\<close> on a store that has a
  layer of that name, no record of the previous revision of the layer is left: the old
  layer is deleted, and so is every record that refers to its identifier. The method does
  the first and not the second. Line 169 gives \<^verbatim>\<open>layer_uuid\<close> the identifier of the new
  layer before the loop of lines 180 to 182 looks for the records to delete, so the loop
  looks for records of the new layer, and the records of the old one stay. Here the
  method runs on a store from an earlier import: it returns, the layer of the name is the
  new one, and the record that refers to the old identifier is still in the store.
\<close>

theorem old_records_survive_replace:
  "\<not> has_raised (priv_update_guide test_manager test_env ''g1'' False True
        (test_world [(''/c/g1.geojson'', ''one'')] old_store)) \<and>
   layers_named ''g1'' (db (final_world (priv_update_guide test_manager test_env ''g1'' False True
        (test_world [(''/c/g1.geojson'', ''one'')] old_store)))) =
     [\<lparr>layer_uuid = ''u'', layer_name = ''g1'', layer_type = ''geoobjects''\<rparr>] \<and>
   find_geoobjects ''old'' (db (final_world (priv_update_guide test_manager test_env ''g1'' False True
        (test_world [(''/c/g1.geojson'', ''one'')] old_store)))) = [old_location]"
  by (simp add: test_defs run_defs Let_def layers_named_def)

subsection \<open>C2: what a call with the default arguments leaves in the store\<close>

text \<open>
  C2, as amended. A call \<^verbatim>\<open>_update_guide(name)\<close> with the default arguments that
  returns, on a store with at most one layer of that name, leaves the store as it was
  (the call gave up) or leaves exactly one layer of that name, and the number of records
  that refer to its identifier is the number of features of the collection in the
  GeoJSON cache file.
\<close>

theorem update_guide_replaces_or_leaves:
  assumes ret: "priv_update_guide self e guide False True w = Returned w'"
      and one: "length (layers_named guide (db w)) \<le> 1"
  shows "replaced_or_unchanged e guide (geojson_filename self guide) w w'"
proof (cases "fetch_step self e guide False w")
  case (Finished out)
  with ret have "fetch_step self e guide False w = Finished (Returned w')"
    by (simp add: priv_update_guide_def)
  then have "db w' = db w" by (rule fetch_step_Returned_db)
  then show ?thesis by (simp add: replaced_or_unchanged_def)
next
  case (Continue w1)
  then have db1: "db w1 = db w" by (rule fetch_step_Continue_db)
  from Continue ret have lr: "load_and_replace e guide (geojson_filename self guide) True w1 = Returned w'"
    by (simp add: priv_update_guide_def)
  from load_and_replace_Returned [OF lr] show ?thesis
  proof
    assume "db w' = db w1"
    with db1 show ?thesis by (simp add: replaced_or_unchanged_def)
  next
    assume "\<exists>n items. feature_count e (geojson_filename self guide) w1 = Some n \<and>
        length items = n \<and> replace_layer e guide True items w1 = Returned w'"
    then obtain items where
      fc: "feature_count e (geojson_filename self guide) w1 = Some (length items)" and
      r: "replace_layer e guide True items w1 = Returned w'"
      by blast
    from one db1 have "length (layers_named guide (db w1)) \<le> 1" by simp
    from replace_layer_one_layer [OF r this] fc feature_count_files [of w' w1 e]
    show ?thesis by (simp add: replaced_or_unchanged_def)
  qed
qed

text \<open>The witness: the first import of \<^verbatim>\<open>g1\<close> into an empty store.\<close>

theorem update_guide_replaces_or_leaves_witness:
  "\<not> has_raised (priv_update_guide test_manager test_env ''g1'' False True
        (test_world [] empty_store)) \<and>
   length (layers_named ''g1'' (db (test_world [] empty_store))) \<le> 1 \<and>
   replaced_or_unchanged test_env ''g1'' (geojson_filename test_manager ''g1'')
     (test_world [] empty_store)
     (final_world (priv_update_guide test_manager test_env ''g1'' False True
        (test_world [] empty_store)))"
proof -
  have nr: "\<not> has_raised (priv_update_guide test_manager test_env ''g1'' False True
        (test_world [] empty_store))"
    by (simp add: test_defs run_defs Let_def)
  then obtain w' where r: "priv_update_guide test_manager test_env ''g1'' False True
        (test_world [] empty_store) = Returned w'"
    by (cases "priv_update_guide test_manager test_env ''g1'' False True
        (test_world [] empty_store)") simp_all
  have one: "length (layers_named ''g1'' (db (test_world [] empty_store))) \<le> 1"
    by (simp add: test_defs layers_named_def)
  from update_guide_replaces_or_leaves [OF r one] nr one r show ?thesis
    by simp
qed

text \<open>
  C2 as first stated fails when the call raises: with a cached collection whose one
  feature has no \<^verbatim>\<open>Name\<close>, the new layer is saved before the \<^verbatim>\<open>KeyError\<close>, so the
  store is changed and the layer has no record.
\<close>

theorem update_guide_replaces_or_leaves_counterexample:
  "has_raised (priv_update_guide test_manager test_env ''g1'' False True
        (test_world [(''/c/g1.geojson'', ''nameless'')] empty_store)) \<and>
   \<not> replaced_or_unchanged test_env ''g1'' (geojson_filename test_manager ''g1'')
     (test_world [(''/c/g1.geojson'', ''nameless'')] empty_store)
     (final_world (priv_update_guide test_manager test_env ''g1'' False True
        (test_world [(''/c/g1.geojson'', ''nameless'')] empty_store)))"
  by (simp add: test_defs run_defs Let_def replaced_or_unchanged_def one_layer_with_def
      layers_named_def feature_count_def)

subsection \<open>C3: a second call\<close>

text \<open>
  C3 says that a second call \<^verbatim>\<open>_update_guide(name)\<close>, with nothing changed in between,
  leaves the store as the first call did. It does not: the second call deletes the layer
  of the first and, for the reason given at C1, none of its records. After the first
  import of the three features of \<^verbatim>\<open>g1\<close> the store has three records, after the second
  it has six.
\<close>

theorem second_update_doubles_records:
  "length (geoobjects (db (final_world
      (priv_update_guide test_manager test_env ''g1'' False True (test_world [] empty_store))))) = 3 \<and>
   length (geoobjects (db (final_world
      (priv_update_guide test_manager test_env ''g1'' False True
        (final_world
          (priv_update_guide test_manager test_env ''g1'' False True
             (test_world [] empty_store))))))) = 6"
  by (simp add: test_defs run_defs Let_def)

subsection \<open>C4: the loop over all guides\<close>

text \<open>
  C4, as amended. \<^verbatim>\<open>update_all\<close> calls \<^verbatim>\<open>_update_guide\<close> with the default arguments for
  the names of the registry in their order, each call in the world the one before left.
  For a guide at any place of the registry: it is reached when every call before it has
  returned; when its own call returns, also after it gave up on a failed download or an
  empty collection, the guides after it are processed; when its call raises, the
  exception leaves \<^verbatim>\<open>update_all\<close> and the guides after it are not processed.
\<close>

theorem update_all_by_position:
  assumes "guides self = before @ (guide, url) # after"
  shows "update_all self e w =
     (case update_guides_loop self e (map fst before) w of
        Raised x w1 \<Rightarrow> Raised x w1
      | Returned w1 \<Rightarrow>
          (case priv_update_guide self e guide False True w1 of
             Raised x w2 \<Rightarrow> Raised x w2
           | Returned w2 \<Rightarrow> update_guides_loop self e (map fst after) w2))"
  using assms
  by (simp add: update_all_def priv_update_guides_def update_guides_loop_append
      split: outcome.splits)

text \<open>
  The witness: the collection cached for \<^verbatim>\<open>g1\<close> is empty, so its call gives up, and
  \<^verbatim>\<open>g2\<close> is imported after it.
\<close>

theorem update_all_by_position_witness:
  "guides test_manager = [(''g1'', ''http://example/g1.kml'')] @ (''g2'', ''http://example/g2.kml'') # [] \<and>
   \<not> has_raised (update_all test_manager test_env (test_world [(''/c/g1.geojson'', ''empty'')] empty_store)) \<and>
   length (layers_named ''g2'' (db (final_world
     (update_all test_manager test_env (test_world [(''/c/g1.geojson'', ''empty'')] empty_store))))) = 1"
proof -
  have g: "guides test_manager =
      [(''g1'', ''http://example/g1.kml'')] @ (''g2'', ''http://example/g2.kml'') # []"
    by (simp add: test_defs)
  show ?thesis
    unfolding update_all_by_position [OF g]
    by (simp add: test_defs run_defs Let_def layers_named_def)
qed

text \<open>
  C4 as first stated fails: with a cached collection for \<^verbatim>\<open>g1\<close> whose feature has no
  \<^verbatim>\<open>Name\<close>, the \<^verbatim>\<open>KeyError\<close> leaves \<^verbatim>\<open>update_all\<close>, and \<^verbatim>\<open>g2\<close> gets no layer.
\<close>

theorem update_all_counterexample:
  "has_raised (update_all test_manager test_env
      (test_world [(''/c/g1.geojson'', ''nameless'')] empty_store)) \<and>
   layers_named ''g2'' (db (final_world (update_all test_manager test_env
      (test_world [(''/c/g1.geojson'', ''nameless'')] empty_store)))) = []"
  by (simp add: update_all_def priv_update_guides_def test_defs run_defs Let_def layers_named_def)

subsection \<open>C5: a name that is not in the registry\<close>

text \<open>
  C5, as amended. For a name that is not a key of the registry, \<^verbatim>\<open>_update_guide\<close>
  raises \<^verbatim>\<open>KeyError\<close> when it has to download, that is when the GeoJSON cache file of
  the name is missing or \<^verbatim>\<open>update\<close> is set; nothing has been changed by then. When the
  file is there and \<^verbatim>\<open>update\<close> is not set, the registry is not read: the call is the
  import of that file.
\<close>

theorem unknown_guide_fetch_or_cache:
  assumes "map_of (guides self) guide = None"
  shows "(files w (geojson_filename self guide) = None \<or> update \<longrightarrow>
            priv_update_guide self e guide update clear w = Raised (KeyError guide) w) \<and>
         (files w (geojson_filename self guide) \<noteq> None \<and> \<not> update \<longrightarrow>
            priv_update_guide self e guide update clear w =
              load_and_replace e guide (geojson_filename self guide) clear w)"
  using assms by (auto simp: priv_update_guide_def fetch_step_def)

text \<open>
  The witness: the name \<^verbatim>\<open>g9\<close>, with an empty cache directory and with a cached
  collection.
\<close>

theorem unknown_guide_fetch_or_cache_witness:
  "map_of (guides test_manager) ''g9'' = None \<and>
   files (test_world [] empty_store) (geojson_filename test_manager ''g9'') = None \<and>
   priv_update_guide test_manager test_env ''g9'' False True (test_world [] empty_store) =
     Raised (KeyError ''g9'') (test_world [] empty_store) \<and>
   files (test_world [(''/c/g9.geojson'', ''one'')] empty_store)
     (geojson_filename test_manager ''g9'') \<noteq> None \<and>
   priv_update_guide test_manager test_env ''g9'' False True
       (test_world [(''/c/g9.geojson'', ''one'')] empty_store) =
     load_and_replace test_env ''g9'' (geojson_filename test_manager ''g9'') True
       (test_world [(''/c/g9.geojson'', ''one'')] empty_store)"
proof -
  have a: "map_of (guides test_manager) ''g9'' = None"
    by (simp add: test_defs)
  have b: "files (test_world [] empty_store) (geojson_filename test_manager ''g9'') = None"
    by (simp add: test_defs)
  have c: "files (test_world [(''/c/g9.geojson'', ''one'')] empty_store)
     (geojson_filename test_manager ''g9'') \<noteq> None"
    by (simp add: test_defs run_defs)
  from unknown_guide_fetch_or_cache [OF a, of "test_world [] empty_store" False test_env True]
       unknown_guide_fetch_or_cache [OF a,
         of "test_world [(''/c/g9.geojson'', ''one'')] empty_store" False test_env True]
       a b c
  show ?thesis by simp
qed

text \<open>
  C5 as first stated fails: the registry is read only for the download. With a GeoJSON
  cache file for \<^verbatim>\<open>g9\<close> in place the call returns and has made a layer \<^verbatim>\<open>g9\<close>.
\<close>

theorem unknown_guide_counterexample:
  "map_of (guides test_manager) ''g9'' = None \<and>
   \<not> has_raised (priv_update_guide test_manager test_env ''g9'' False True
        (test_world [(''/c/g9.geojson'', ''one'')] empty_store)) \<and>
   length (layers_named ''g9'' (db (final_world
      (priv_update_guide test_manager test_env ''g9'' False True
        (test_world [(''/c/g9.geojson'', ''one'')] empty_store))))) = 1"
  by (simp add: test_defs run_defs Let_def layers_named_def)

subsection \<open>C6: a download that fails\<close>

text \<open>
  C6, as amended. When the download of a guide raises \<^verbatim>\<open>URLError\<close> or \<^verbatim>\<open>HTTPError\<close>,
  the two classes the handler names, the call \<^verbatim>\<open>_update_guide\<close> returns, it has logged
  one warning, and the store and the cache files are as they were before the call.
\<close>

theorem fetch_failure_leaves_store:
  assumes "files w (geojson_filename self guide) = None \<or> update"
      and "map_of (guides self) guide = Some url"
      and "urlopen_read_decode e url = Inl x"
      and "is_URLError x"
  shows "\<exists>w'. priv_update_guide self e guide update clear w = Returned w' \<and>
              db w' = db w \<and> files w' = files w \<and>
              logged w' = logged w @ [(warn, ''Could not get web guide data:'')]"
  using assms by (auto simp: priv_update_guide_def fetch_step_def log_def)

text \<open>
  The witness: the guide \<^verbatim>\<open>g3\<close>, whose URL does not answer, on a store with an earlier
  import.
\<close>

theorem fetch_failure_leaves_store_witness:
  "files (test_world [] old_store) (geojson_filename offline_manager ''g3'') = None \<and>
   map_of (guides offline_manager) ''g3'' = Some ''http://example/down.kml'' \<and>
   urlopen_read_decode test_env ''http://example/down.kml'' = Inl URLError \<and>
   is_URLError URLError \<and>
   \<not> has_raised (priv_update_guide offline_manager test_env ''g3'' False True
       (test_world [] old_store)) \<and>
   db (final_world (priv_update_guide offline_manager test_env ''g3'' False True
       (test_world [] old_store))) = old_store"
proof -
  have a: "files (test_world [] old_store) (geojson_filename offline_manager ''g3'') = None"
    by (simp add: test_defs)
  have b: "map_of (guides offline_manager) ''g3'' = Some ''http://example/down.kml''"
    by (simp add: test_defs)
  have c: "urlopen_read_decode test_env ''http://example/down.kml'' = Inl URLError"
    by (simp add: test_defs)
  have d: "is_URLError URLError" by simp
  from fetch_failure_leaves_store [where update = False and clear = True, OF disjI1 [OF a] b c d]
  obtain w' where "priv_update_guide offline_manager test_env ''g3'' False True
       (test_world [] old_store) = Returned w'" and "db w' = db (test_world [] old_store)"
    by blast
  with a b c d show ?thesis by (simp add: test_world_def)
qed

text \<open>
  C6 as first stated fails for a network failure of another class: when the connection
  breaks while the body is read, \<^verbatim>\<open>read()\<close> raises \<^verbatim>\<open>IncompleteRead\<close>, which leaves
  \<^verbatim>\<open>_update_guide\<close> with no warning logged.
\<close>

theorem fetch_failure_counterexample:
  "priv_update_guide test_manager truncated_env ''g1'' False True (test_world [] old_store) =
     Raised IncompleteRead (test_world [] old_store) \<and>
   logged (final_world (priv_update_guide test_manager truncated_env ''g1'' False True
     (test_world [] old_store))) = []"
  by (simp add: test_defs run_defs)

subsection \<open>C7: an empty feature collection\<close>

text \<open>
  C7. When the collection read from the GeoJSON cache file has no feature,
  \<^verbatim>\<open>_update_guide\<close> returns, the log has one more entry, the warning, and the store is
  as it was before the call: no layer and no record has been added or deleted.
\<close>

theorem empty_collection_leaves_store:
  assumes "fetch_step self e guide update w = Continue w1"
      and "feature_count e (geojson_filename self guide) w1 = Some 0"
  shows "\<exists>w'. priv_update_guide self e guide update clear w = Returned w' \<and>
              logged w' = logged w1 @ [(warn, ''No features found!'')] \<and>
              db w' = db w \<and> files w' = files w1"
proof -
  from assms(1) have "db w1 = db w" by (rule fetch_step_Continue_db)
  moreover from assms(2) have
    "load_and_replace e guide (geojson_filename self guide) clear w1 =
       Returned (w1\<lparr>logged := logged w1 @ [(warn, ''No features found!'')]\<rparr>)"
    by (auto simp: feature_count_def load_and_replace_def log_def
        split: option.splits sum.splits)
  ultimately show ?thesis using assms(1)
    by (simp add: priv_update_guide_def)
qed

text \<open>
  The witness: an empty collection in the cache of \<^verbatim>\<open>g1\<close>, on a store with an earlier
  import.
\<close>

theorem empty_collection_leaves_store_witness:
  "fetch_step test_manager test_env ''g1'' False (test_world [(''/c/g1.geojson'', ''empty'')] old_store) =
     Continue (test_world [(''/c/g1.geojson'', ''empty'')] old_store) \<and>
   feature_count test_env (geojson_filename test_manager ''g1'')
     (test_world [(''/c/g1.geojson'', ''empty'')] old_store) = Some 0 \<and>
   \<not> has_raised (priv_update_guide test_manager test_env ''g1'' False True
     (test_world [(''/c/g1.geojson'', ''empty'')] old_store)) \<and>
   logged (final_world (priv_update_guide test_manager test_env ''g1'' False True
     (test_world [(''/c/g1.geojson'', ''empty'')] old_store))) = [(warn, ''No features found!'')] \<and>
   db (final_world (priv_update_guide test_manager test_env ''g1'' False True
     (test_world [(''/c/g1.geojson'', ''empty'')] old_store))) = old_store"
proof -
  let ?w = "test_world [(''/c/g1.geojson'', ''empty'')] old_store"
  have a: "fetch_step test_manager test_env ''g1'' False ?w = Continue ?w"
    by (simp add: test_defs run_defs)
  have b: "feature_count test_env (geojson_filename test_manager ''g1'') ?w = Some 0"
    by (simp add: test_defs run_defs feature_count_def)
  from empty_collection_leaves_store [where clear = True, OF a b]
  obtain w' where "priv_update_guide test_manager test_env ''g1'' False True ?w = Returned w'"
    and "logged w' = logged ?w @ [(warn, ''No features found!'')]"
    and "db w' = db ?w"
    by blast
  with a b show ?thesis by (simp add: test_world_def)
qed

subsection \<open>C8: a translator that fails\<close>

text \<open>
  C8, as amended. Once the guide is downloaded and written, \<^verbatim>\<open>_update_guide\<close> goes on
  to read the GeoJSON cache file whatever the translator did. When the translator cannot
  be started, the exception is caught and an error is logged, and the files are as the
  download left them. When it runs, its exit status is not looked at and no error is
  logged, and the files are as the translator left them. In both cases the import is
  that of the file found there.
\<close>

theorem translate_failure_continues:
  assumes "files w (geojson_filename self guide) = None \<or> update"
      and "map_of (guides self) guide = Some url"
      and "urlopen_read_decode e url = Inr data"
      and "open_write e (kml_filename self guide) data (files w) = (fs, None)"
  shows "priv_update_guide self e guide update clear w =
     load_and_replace e guide (geojson_filename self guide) clear
       (case popen e [translate_binary self, ''-f'', ''GeoJSON'',
                      geojson_filename self guide, kml_filename self guide]
               (cache_path self) fs of
          SpawnRaised x \<Rightarrow>
            w\<lparr>files := fs,
              logged := logged w @ [(debug, ''Executing command: ''),
                                    (error, ''Problem during gdal execution: ''),
                                    (debug, ''Result (Translate): '')]\<rparr>
        | Exited status fs' \<Rightarrow>
            w\<lparr>files := fs',
              logged := logged w @ [(debug, ''Executing command: ''),
                                    (debug, ''Result (Translate): '')]\<rparr>)"
  using assms
  by (auto simp: priv_update_guide_def fetch_step_def priv_translate_def priv_runcommand_def
      log_def Let_def split: proc_result.splits)

text \<open>
  The witness: the translator binary is missing and the cache holds a collection of one
  feature from an earlier run. The error is logged and the one feature is imported, not
  the three that were downloaded.
\<close>

theorem translate_failure_continues_witness:
  "files (test_world [(''/c/g1.geojson'', ''one'')] empty_store)
      (geojson_filename broken_manager ''g1'') \<noteq> None \<and>
   map_of (guides broken_manager) ''g1'' = Some ''http://example/g1.kml'' \<and>
   urlopen_read_decode test_env ''http://example/g1.kml'' = Inr ''three'' \<and>
   \<not> has_raised (priv_update_guide broken_manager test_env ''g1'' True True
        (test_world [(''/c/g1.geojson'', ''one'')] empty_store)) \<and>
   (error, ''Problem during gdal execution: '') \<in> set (logged (final_world
      (priv_update_guide broken_manager test_env ''g1'' True True
        (test_world [(''/c/g1.geojson'', ''one'')] empty_store)))) \<and>
   length (geoobjects (db (final_world
      (priv_update_guide broken_manager test_env ''g1'' True True
        (test_world [(''/c/g1.geojson'', ''one'')] empty_store))))) = 1"
proof -
  have b: "map_of (guides broken_manager) ''g1'' = Some ''http://example/g1.kml''"
    by (simp add: test_defs)
  have c: "urlopen_read_decode test_env ''http://example/g1.kml'' = Inr ''three''"
    by (simp add: test_defs)
  have d: "open_write test_env (kml_filename broken_manager ''g1'') ''three''
       (files (test_world [(''/c/g1.geojson'', ''one'')] empty_store)) =
       ((files (test_world [(''/c/g1.geojson'', ''one'')] empty_store))
          (kml_filename broken_manager ''g1'' \<mapsto> ''three''), None)"
    by (simp add: test_defs)
  show ?thesis
    unfolding translate_failure_continues [where update = True and clear = True,
        OF disjI2 [OF TrueI] b c d]
    by (simp add: test_defs run_defs Let_def)
qed

text \<open>
  C8 as first stated fails for the exit status: a translator that exits with status 1
  leaves no entry of level \<^verbatim>\<open>error\<close> in the log.
\<close>

theorem translate_failure_counterexample:
  "\<not> has_raised (priv_update_guide test_manager failing_tool_env ''g1'' True True
        (test_world [(''/c/g1.geojson'', ''one'')] empty_store)) \<and>
   error \<notin> fst ` set (logged (final_world
      (priv_update_guide test_manager failing_tool_env ''g1'' True True
        (test_world [(''/c/g1.geojson'', ''one'')] empty_store))))"
  by (simp add: test_defs run_defs Let_def)

subsection \<open>C9: a feature without a name\<close>




subsection \<open>C10: the exceptions of the download that are not caught\<close>

text \<open>
  C10. In the download only \<^verbatim>\<open>URLError\<close> and \<^verbatim>\<open>HTTPError\<close> are caught. An exception
  of another class raised by the request, the read or the decoding, and an exception
  raised while the KML file is written, leave \<^verbatim>\<open>_update_guide\<close>; and they leave
  \<^verbatim>\<open>update_all\<close> when the guide is reached in its loop.
\<close>

theorem uncaught_fetch_exceptions_escape:
  assumes "files w (geojson_filename self guide) = None \<or> update"
      and "map_of (guides self) guide = Some url"
      and "(urlopen_read_decode e url = Inl x \<and> \<not> is_URLError x \<and> w' = w) \<or>
           (\<exists>data fs. urlopen_read_decode e url = Inr data \<and>
               open_write e (kml_filename self guide) data (files w) = (fs, Some x) \<and>
               w' = w\<lparr>files := fs\<rparr>)"
  shows "priv_update_guide self e guide update clear w = Raised x w' \<and>
         (guides self = before @ (guide, url) # after \<and>
          update_guides_loop self e (map fst before) w0 = Returned w \<and>
          \<not> update \<and> clear \<longrightarrow> update_all self e w0 = Raised x w')"
proof -
  from assms have one: "priv_update_guide self e guide update clear w = Raised x w'"
    by (auto simp: priv_update_guide_def fetch_step_def)
  then show ?thesis
    by (auto simp: update_all_def priv_update_guides_def update_guides_loop_append)
qed

text \<open>
  The witness: a body that is not UTF-8, and a cache directory that cannot be written.
\<close>

theorem uncaught_fetch_exceptions_escape_witness:
  "priv_update_guide test_manager undecodable_env ''g1'' False True (test_world [] old_store) =
     Raised UnicodeDecodeError (test_world [] old_store) \<and>
   update_all test_manager undecodable_env (test_world [] old_store) =
     Raised UnicodeDecodeError (test_world [] old_store) \<and>
   priv_update_guide test_manager readonly_env ''g1'' False True (test_world [] old_store) =
     Raised OSError (test_world [] old_store) \<and>
   update_all test_manager readonly_env (test_world [] old_store) =
     Raised OSError (test_world [] old_store)"
proof -
  let ?w = "test_world [] old_store"
  have a: "files ?w (geojson_filename test_manager ''g1'') = None \<or> False"
    by (simp add: test_defs)
  have b: "map_of (guides test_manager) ''g1'' = Some ''http://example/g1.kml''"
    by (simp add: test_defs)
  have g: "guides test_manager = [] @ (''g1'', ''http://example/g1.kml'') # [(''g2'', ''http://example/g2.kml'')]"
    by (simp add: test_defs)
  have l: "\<And>e. update_guides_loop test_manager e (map fst []) ?w = Returned ?w"
    by simp
  have c1: "(urlopen_read_decode undecodable_env ''http://example/g1.kml'' = Inl UnicodeDecodeError \<and>
       \<not> is_URLError UnicodeDecodeError \<and> ?w = ?w) \<or>
      (\<exists>data fs. urlopen_read_decode undecodable_env ''http://example/g1.kml'' = Inr data \<and>
          open_write undecodable_env (kml_filename test_manager ''g1'') data (files ?w) =
            (fs, Some UnicodeDecodeError) \<and> ?w = ?w\<lparr>files := fs\<rparr>)"
    by (simp add: test_defs)
  have c2: "(urlopen_read_decode readonly_env ''http://example/g1.kml'' = Inl OSError \<and>
       \<not> is_URLError OSError \<and> ?w = ?w) \<or>
      (\<exists>data fs. urlopen_read_decode readonly_env ''http://example/g1.kml'' = Inr data \<and>
          open_write readonly_env (kml_filename test_manager ''g1'') data (files ?w) =
            (fs, Some OSError) \<and> ?w = ?w\<lparr>files := fs\<rparr>)"
    by (simp add: test_defs)
  from uncaught_fetch_exceptions_escape [OF a b c1, of True "[]" "[(''g2'', ''http://example/g2.kml'')]" ?w]
       uncaught_fetch_exceptions_escape [OF a b c2, of True "[]" "[(''g2'', ''http://example/g2.kml'')]" ?w]
       g l
  show ?thesis by simp
qed

end
